theory Spec2Isabelle
  imports Complex_Main
begin

section \<open>Data model\<close>

text \<open>
  A comparable sale is the dictionary that \<^verbatim>\<open>search_with_rag\<close> builds for one search
  result (keys \<^verbatim>\<open>sale_id\<close>, \<^verbatim>\<open>item_name\<close>, \<^verbatim>\<open>auction_company\<close>, \<^verbatim>\<open>price\<close>,
  \<^verbatim>\<open>sale_date\<close>, \<^verbatim>\<open>text\<close>). Python strings are modelled as lists of 8-bit characters,
  read as the code points 0..255 (Latin-1); prices, which the source holds as floats,
  are modelled as exact rationals.
\<close>

record sale_item =
  sale_id :: string
  item_name :: string
  auction_company :: string
  price :: rat
  sale_date :: string
  item_text :: string

section \<open>The offline valuator (app/agents/valuator.py, acall with USE\_DUMMY)\<close>

text \<open>
  \<^verbatim>\<open>acall\<close> has two branches. With \<^verbatim>\<open>USE_DUMMY\<close> it computes the valuation itself; this
  is the branch modelled here. Otherwise it sends the comparable sales, with a prompt
  that describes an algorithm in words, to a hosted language model and returns what
  that model answers; no code of the repository computes that answer.
\<close>

datatype confidence_level = High | Medium | Low

record adjustments =
  age :: rat
  usage :: rat
  condition :: rat

text \<open>
  The dictionary \<^verbatim>\<open>acall\<close> returns. The key \<^verbatim>\<open>error\<close> is present only in the dictionary
  of the outer exception handler, hence an option.
\<close>

record valuation =
  error :: "string option"
  fmv :: rat
  confidence :: confidence_level
  adjustments :: adjustments
  top3 :: "sale_item list"
  explanation :: string

text \<open>\<^verbatim>\<open>statistics.mean\<close> on a non-empty list.\<close>

definition mean :: "rat list \<Rightarrow> rat" where
  "mean xs = sum_list xs / of_nat (length xs)"

text \<open>Rounding a rational to the nearest integer, ties to the even one.\<close>

definition round_half_even :: "rat \<Rightarrow> int" where
  "round_half_even x =
     (let f = \<lfloor>x\<rfloor>; d = x - of_int f
      in if d < 1 / 2 then f
         else if 1 / 2 < d then f + 1
         else if even f then f else f + 1)"

text \<open>Python's \<^verbatim>\<open>round(x, 2)\<close>.\<close>

definition py_round2 :: "rat \<Rightarrow> rat" where
  "py_round2 x = of_int (round_half_even (x * 100)) / 100"

text \<open>
  The branch of \<^verbatim>\<open>acall\<close> taken when \<^verbatim>\<open>USE_DUMMY\<close> holds:
  \<^verbatim>\<open>
  prices = [c.get("price", 0) for c in comps]
  fmv = round(mean(prices), 2) if prices else 0.0
  conf = "high" if len(prices) >= 5 else "medium" if len(prices) >= 3 else "low"
  return {"fmv": fmv, "confidence": conf,
          "adjustments": {"age": 0, "usage": 0, "condition": 0},
          "top3": comps[:3], "explanation": "Dummy valuation using sample data"}
  \<close>
  \<open>comps\<close> is the list under the key \<^verbatim>\<open>comps\<close> of the argument (the empty list when
  the key is missing). Every comparable sale the orchestrator passes carries the key
  \<^verbatim>\<open>price\<close>, so the default of \<^verbatim>\<open>c.get\<close> is never taken.
\<close>

definition valuator_acall :: "sale_item list \<Rightarrow> valuation" where
  "valuator_acall comps =
     (let prices = map price comps;
          fmv_v = (if prices \<noteq> [] then py_round2 (mean prices) else 0);
          conf = (if 5 \<le> length prices then High
                  else if 3 \<le> length prices then Medium else Low)
      in \<lparr>error = None, fmv = fmv_v, confidence = conf,
          adjustments = \<lparr>age = 0, usage = 0, condition = 0\<rparr>,
          top3 = take 3 comps,
          explanation = ''Dummy valuation using sample data''\<rparr>)"

section \<open>Text handling: characters, Python string functions, regular expressions\<close>

subsection \<open>Character classes\<close>

text \<open>
  On the code points 0..255, \<^verbatim>\<open>\d\<close> matches the ten ASCII digits only, and \<^verbatim>\<open>\s\<close>
  (as \<^verbatim>\<open>str.strip\<close>) the characters for which \<^verbatim>\<open>str.isspace\<close> holds: tab to carriage
  return, the four separators 0x1C..0x1F, the space, 0x85 and the no-break space 0xA0.
\<close>

definition isdigit :: "char \<Rightarrow> bool" where
  "isdigit c = (c \<in> set ''0123456789'')"

definition isspace :: "char \<Rightarrow> bool" where
  "isspace c = (c \<in> set [CHR 0x09, CHR 0x0A, CHR 0x0B, CHR 0x0C, CHR 0x0D,
                          CHR 0x1C, CHR 0x1D, CHR 0x1E, CHR 0x1F, CHR 0x20,
                          CHR 0x85, CHR 0xA0])"

definition upper_AZ :: "char \<Rightarrow> bool" where
  "upper_AZ c = (c \<in> set ''ABCDEFGHIJKLMNOPQRSTUVWXYZ'')"

definition lower_az :: "char \<Rightarrow> bool" where
  "lower_az c = (c \<in> set ''abcdefghijklmnopqrstuvwxyz'')"

subsection \<open>A backtracking matcher for the regular expressions of the source\<close>

text \<open>
  Every repetition in the source's patterns is over a character class, so the syntax is:
  a literal text, a greedy repetition of a class between \<open>lo\<close> and \<open>hi\<close> times
  (\<open>None\<close>: unbounded), sequence, ordered alternative, the optional \<^verbatim>\<open>(?:r)?\<close> and a
  capturing group.
\<close>

datatype regex =
    Lit string
  | Rep "char \<Rightarrow> bool" nat "nat option"
  | Seq regex regex
  | Alt regex regex
  | Opt regex
  | Grp regex

text \<open>
  \<open>matches r inp\<close> lists every way \<open>r\<close> matches a prefix of \<open>inp\<close>, in the order in
  which Python's backtracking engine tries them (longest repetition first, left
  alternative first): the captured groups in the order of their opening parentheses and
  the number of characters consumed. The engine's match is the head of the list.
\<close>

fun matches :: "regex \<Rightarrow> string \<Rightarrow> (string list \<times> nat) list" where
  "matches (Lit s) inp = (if take (length s) inp = s then [([], length s)] else [])"
| "matches (Rep cls lo hi) inp =
     (let run = length (takeWhile cls inp);
          top = (case hi of None \<Rightarrow> run | Some h \<Rightarrow> min h run)
      in map (\<lambda>k. ([], k)) (rev [lo ..< Suc top]))"
| "matches (Seq a b) inp =
     concat (map (\<lambda>(c1, n1). map (\<lambda>(c2, n2). (c1 @ c2, n1 + n2)) (matches b (drop n1 inp)))
                 (matches a inp))"
| "matches (Alt a b) inp = matches a inp @ matches b inp"
| "matches (Opt a) inp = matches a inp @ [([], 0)]"
| "matches (Grp a) inp = map (\<lambda>(c, n). (take n inp # c, n)) (matches a inp)"

definition cat :: "regex list \<Rightarrow> regex" where
  "cat rs = foldr Seq rs (Lit [])"

fun alts :: "regex list \<Rightarrow> regex" where
  "alts [] = Rep (\<lambda>c. False) 1 None"
| "alts [r] = r"
| "alts (r # rs) = Alt r (alts rs)"

text \<open>\<^verbatim>\<open>m.group(k)\<close> for a match with captures \<open>m\<close>.\<close>

definition m_group :: "string list \<Rightarrow> nat \<Rightarrow> string" where
  "m_group m k = (if 1 \<le> k \<and> k \<le> length m then m ! (k - 1) else [])"

text \<open>\<^verbatim>\<open>re.search\<close>: the match at the leftmost position that has one.\<close>

fun re_search :: "regex \<Rightarrow> string \<Rightarrow> string list option" where
  "re_search r [] = (case matches r [] of [] \<Rightarrow> None | (c, n) # _ \<Rightarrow> Some c)"
| "re_search r (x # xs) =
     (case matches r (x # xs) of [] \<Rightarrow> re_search r xs | (c, n) # _ \<Rightarrow> Some c)"

text \<open>
  \<^verbatim>\<open>re.findall\<close> and \<^verbatim>\<open>re.sub\<close> scan from the left and resume after each match; the
  numeric argument of the helper counts the characters of the last match still to be
  skipped. No pattern of the source matches the empty string, so the rules of Python
  for a match at the end of the text or next to an empty match never apply.
\<close>

fun findall_from :: "regex \<Rightarrow> nat \<Rightarrow> string \<Rightarrow> string list list" where
  "findall_from r k [] = []"
| "findall_from r (Suc k) (x # xs) = findall_from r k xs"
| "findall_from r 0 (x # xs) =
     (case matches r (x # xs) of
        [] \<Rightarrow> findall_from r 0 xs
      | (c, n) # _ \<Rightarrow> c # findall_from r (n - 1) xs)"

definition re_findall :: "regex \<Rightarrow> string \<Rightarrow> string list list" where
  "re_findall r s = findall_from r 0 s"

fun sub_from :: "regex \<Rightarrow> (string list \<Rightarrow> string) \<Rightarrow> nat \<Rightarrow> string \<Rightarrow> string" where
  "sub_from r repl k [] = []"
| "sub_from r repl (Suc k) (x # xs) = sub_from r repl k xs"
| "sub_from r repl 0 (x # xs) =
     (case matches r (x # xs) of
        [] \<Rightarrow> x # sub_from r repl 0 xs
      | (c, n) # _ \<Rightarrow>
          repl c @ (if n = 0 then x # sub_from r repl 0 xs else sub_from r repl (n - 1) xs))"

definition re_sub :: "regex \<Rightarrow> (string list \<Rightarrow> string) \<Rightarrow> string \<Rightarrow> string" where
  "re_sub r repl s = sub_from r repl 0 s"

subsection \<open>Python string functions\<close>

definition strip :: "string \<Rightarrow> string" where
  "strip s = rev (dropWhile isspace (rev (dropWhile isspace s)))"

text \<open>\<^verbatim>\<open>needle in hay\<close> on strings.\<close>

fun py_in :: "string \<Rightarrow> string \<Rightarrow> bool" where
  "py_in needle [] = (needle = [])"
| "py_in needle (x # xs) = (take (length needle) (x # xs) = needle \<or> py_in needle xs)"

section \<open>The retriever's text functions (app/agents/rag\_retriever.py)\<close>

subsection \<open>clean\_and\_normalize\_text\<close>

text \<open>
  \<^verbatim>\<open>
  text = re.sub(r'\s+', ' ', text).strip()
  text = re.sub(r'\$\s*(\d+),(\d+)', r'$\1\2', text)
  \<close>
\<close>

definition whitespace_run :: regex where
  "whitespace_run = Rep isspace 1 None"

definition dollar_amount :: regex where
  "dollar_amount =
     cat [Lit ''$'', Rep isspace 0 None, Grp (Rep isdigit 1 None), Lit '','',
          Grp (Rep isdigit 1 None)]"

definition clean_and_normalize_text :: "string \<Rightarrow> string" where
  "clean_and_normalize_text t =
     (let t1 = strip (re_sub whitespace_run (\<lambda>m. '' '') t)
      in re_sub dollar_amount (\<lambda>m. ''$'' @ m_group m 1 @ m_group m 2) t1)"

subsection \<open>Numbers in text\<close>

definition digit_value :: "char \<Rightarrow> nat" where
  "digit_value c = of_char c - 48"

text \<open>
  \<^verbatim>\<open>int(s)\<close> on the strings it receives here: decimal digits, possibly surrounded by white
  space. \<open>None\<close> stands for the \<^verbatim>\<open>ValueError\<close>.
\<close>

definition py_int :: "string \<Rightarrow> nat option" where
  "py_int s =
     (let t = strip s
      in if t \<noteq> [] \<and> list_all isdigit t
         then Some (foldl (\<lambda>n c. 10 * n + digit_value c) 0 t) else None)"

text \<open>
  \<^verbatim>\<open>float(s)\<close> on a string of digits; every value that passes the later range test is
  an integer below \<open>2^53\<close>, which the float holds exactly.
\<close>

definition py_float :: "string \<Rightarrow> rat option" where
  "py_float s = map_option of_nat (py_int s)"

definition digit_char :: "nat \<Rightarrow> char" where
  "digit_char d = ''0123456789'' ! (d mod 10)"

fun str_nat :: "nat \<Rightarrow> string" where
  "str_nat n = (if n < 10 then [digit_char n] else str_nat (n div 10) @ [digit_char (n mod 10)])"

declare str_nat.simps [simp del]

text \<open>The format \<^verbatim>\<open>{n:02d}\<close>.\<close>

definition fmt02 :: "nat \<Rightarrow> string" where
  "fmt02 n = (if n < 10 then ''0'' @ str_nat n else str_nat n)"

text \<open>\<^verbatim>\<open>xs.index(x)\<close>; \<open>None\<close> stands for the \<^verbatim>\<open>ValueError\<close>.\<close>

fun index_of :: "'a list \<Rightarrow> 'a \<Rightarrow> nat option" where
  "index_of [] x = None"
| "index_of (y # ys) x = (if x = y then Some 0 else map_option Suc (index_of ys x))"

subsection \<open>extract\_date\<close>

definition month_names :: "string list" where
  "month_names =
     [''January'', ''February'', ''March'', ''April'', ''May'', ''June'', ''July'',
      ''August'', ''September'', ''October'', ''November'', ''December'']"

text \<open>
  The five patterns, in the order of the source:
  \<^verbatim>\<open>(\d{1,2})/(\d{1,2})/(\d{4})\<close>, \<^verbatim>\<open>(\d{1,2})-(\d{1,2})-(\d{4})\<close>,
  \<^verbatim>\<open>(\d{4})/(\d{1,2})/(\d{1,2})\<close>, \<^verbatim>\<open>(\d{1,2})/(\d{1,2})/(\d{4})\<close> once more, and
  \<^verbatim>\<open>(January|...|December)\s+(\d{1,2}),\s+(\d{4})\<close>.
\<close>

definition date_mdy :: "string \<Rightarrow> regex" where
  "date_mdy sep =
     cat [Grp (Rep isdigit 1 (Some 2)), Lit sep, Grp (Rep isdigit 1 (Some 2)), Lit sep,
          Grp (Rep isdigit 4 (Some 4))]"

definition date_ymd :: regex where
  "date_ymd =
     cat [Grp (Rep isdigit 4 (Some 4)), Lit ''/'', Grp (Rep isdigit 1 (Some 2)), Lit ''/'',
          Grp (Rep isdigit 1 (Some 2))]"

definition date_textual :: regex where
  "date_textual =
     cat [Grp (alts (map Lit month_names)), Rep isspace 1 None,
          Grp (Rep isdigit 1 (Some 2)), Lit '','', Rep isspace 1 None,
          Grp (Rep isdigit 4 (Some 4))]"

text \<open>
  The formatters' f-string \<^verbatim>\<open>f"{year}-{month:02d}-{day:02d}"\<close>: the year is the matched
  text, month and day are integers; an exception in computing either is \<open>None\<close>.
\<close>

definition iso_date :: "string \<Rightarrow> nat option \<Rightarrow> nat option \<Rightarrow> string option" where
  "iso_date y mo d =
     (case mo of None \<Rightarrow> None
      | Some mo' \<Rightarrow>
          (case d of None \<Rightarrow> None
           | Some d' \<Rightarrow> Some (y @ ''-'' @ fmt02 mo' @ ''-'' @ fmt02 d')))"

definition date_patterns :: "(regex \<times> (string list \<Rightarrow> string option)) list" where
  "date_patterns =
     [(date_mdy ''/'', \<lambda>m. iso_date (m_group m 3) (py_int (m_group m 1)) (py_int (m_group m 2))),
      (date_mdy ''-'', \<lambda>m. iso_date (m_group m 3) (py_int (m_group m 1)) (py_int (m_group m 2))),
      (date_ymd, \<lambda>m. iso_date (m_group m 1) (py_int (m_group m 2)) (py_int (m_group m 3))),
      (date_mdy ''/'', \<lambda>m. iso_date (m_group m 3) (py_int (m_group m 2)) (py_int (m_group m 1))),
      (date_textual,
       \<lambda>m. iso_date (m_group m 3) (map_option Suc (index_of month_names (m_group m 1)))
              (py_int (m_group m 2)))]"

text \<open>
  \<^verbatim>\<open>
  for pattern, formatter in patterns:
      matches = re.search(pattern, text)
      if matches:
          try: return formatter(matches)
          except: continue
  return None
  \<close>
\<close>

fun first_date :: "(regex \<times> (string list \<Rightarrow> string option)) list \<Rightarrow> string \<Rightarrow> string option" where
  "first_date [] t = None"
| "first_date ((p, formatter) # ps) t =
     (case re_search p t of
        None \<Rightarrow> first_date ps t
      | Some m \<Rightarrow> (case formatter m of Some d \<Rightarrow> Some d | None \<Rightarrow> first_date ps t))"

definition extract_date :: "string \<Rightarrow> string option" where
  "extract_date t = first_date date_patterns t"

subsection \<open>extract\_prices\<close>

text \<open>
  \<^verbatim>\<open>\$\s*([\d,]+)(?:\.\d+)?\<close>, \<^verbatim>\<open>([\d,]+)(?:\.\d+)?\s*dollars\<close> and
  \<^verbatim>\<open>([\d,]+)(?:\.\d+)?\s*USD\<close>.
\<close>

definition price_char :: "char \<Rightarrow> bool" where
  "price_char c = (isdigit c \<or> c = CHR '','')"

definition decimals :: regex where
  "decimals = Opt (cat [Lit ''.'', Rep isdigit 1 None])"

definition price_patterns :: "regex list" where
  "price_patterns =
     [cat [Lit ''$'', Rep isspace 0 None, Grp (Rep price_char 1 None), decimals],
      cat [Grp (Rep price_char 1 None), decimals, Rep isspace 0 None, Lit ''dollars''],
      cat [Grp (Rep price_char 1 None), decimals, Rep isspace 0 None, Lit ''USD'']]"

text \<open>
  The body of the inner loop, on the list \<^verbatim>\<open>all_prices\<close>:
  \<^verbatim>\<open>
  try:
      price_str = match.replace(',', '')
      price = float(price_str)
      if 1000 <= price <= 1000000:
          all_prices.append(price)
  except:
      continue
  \<close>
\<close>

definition add_price :: "rat list \<Rightarrow> string \<Rightarrow> rat list" where
  "add_price all_prices match =
     (case py_float (filter (\<lambda>c. c \<noteq> CHR '','') match) of
        None \<Rightarrow> all_prices
      | Some p \<Rightarrow> if 1000 \<le> p \<and> p \<le> 1000000 then all_prices @ [p] else all_prices)"

text \<open>With one group in the pattern, \<^verbatim>\<open>re.findall\<close> returns the texts of that group.\<close>

definition extract_prices :: "string \<Rightarrow> rat list" where
  "extract_prices t =
     foldl (\<lambda>all_prices pattern.
              foldl add_price all_prices (map (\<lambda>m. m_group m 1) (re_findall pattern t)))
       [] price_patterns"

subsection \<open>extract\_equipment\_brand\_and\_model\<close>

text \<open>
  \<^verbatim>\<open>str.upper\<close> on the code points 0..255: the letters a--z and the letters 0xE0..0xFE
  (not the division sign 0xF7) become their capitals, 32 places lower; the sharp s 0xDF
  becomes \<^verbatim>\<open>SS\<close>. The upper-case forms of 0xB5 and 0xFF lie beyond 255; the two
  characters are kept as they are, which changes no comparison with the ASCII names of
  the roster.
\<close>

definition lower_letters :: string where
  "lower_letters =
     ''abcdefghijklmnopqrstuvwxyz'' @
     [CHR 0xE0, CHR 0xE1, CHR 0xE2, CHR 0xE3, CHR 0xE4, CHR 0xE5, CHR 0xE6, CHR 0xE7,
      CHR 0xE8, CHR 0xE9, CHR 0xEA, CHR 0xEB, CHR 0xEC, CHR 0xED, CHR 0xEE, CHR 0xEF,
      CHR 0xF0, CHR 0xF1, CHR 0xF2, CHR 0xF3, CHR 0xF4, CHR 0xF5, CHR 0xF6, CHR 0xF8,
      CHR 0xF9, CHR 0xFA, CHR 0xFB, CHR 0xFC, CHR 0xFD, CHR 0xFE]"

definition upper_letters :: string where
  "upper_letters =
     ''ABCDEFGHIJKLMNOPQRSTUVWXYZ'' @
     [CHR 0xC0, CHR 0xC1, CHR 0xC2, CHR 0xC3, CHR 0xC4, CHR 0xC5, CHR 0xC6, CHR 0xC7,
      CHR 0xC8, CHR 0xC9, CHR 0xCA, CHR 0xCB, CHR 0xCC, CHR 0xCD, CHR 0xCE, CHR 0xCF,
      CHR 0xD0, CHR 0xD1, CHR 0xD2, CHR 0xD3, CHR 0xD4, CHR 0xD5, CHR 0xD6, CHR 0xD8,
      CHR 0xD9, CHR 0xDA, CHR 0xDB, CHR 0xDC, CHR 0xDD, CHR 0xDE]"

definition upper_char :: "char \<Rightarrow> string" where
  "upper_char c =
     (case map_of (zip lower_letters upper_letters) c of
        Some u \<Rightarrow> [u]
      | None \<Rightarrow> if c = CHR 0xDF then ''SS'' else [c])"

definition upper :: "string \<Rightarrow> string" where
  "upper s = concat (map upper_char s)"

definition brands :: "string list" where
  "brands =
     [''John Deere'', ''JOHN DEERE'',
      ''Case IH'', ''CASE IH'', ''CASE'', ''Case'',
      ''New Holland'', ''NEW HOLLAND'',
      ''Kubota'', ''KUBOTA'',
      ''Massey Ferguson'', ''MASSEY FERGUSON'',
      ''AGCO'', ''Fendt'', ''FENDT'',
      ''Claas'', ''CLAAS'',
      ''DEUTZ-FAHR'', ''Deutz-Fahr'',
      ''Caterpillar'', ''CAT'']"

text \<open>
  The model patterns: \<^verbatim>\<open>(\d+[A-Z]+R?)\<close> and \<^verbatim>\<open>([A-Z]\d+[A-Z]?)\<close> for John Deere,
  \<^verbatim>\<open>(\d+[A-Z]+)\<close> and \<^verbatim>\<open>([A-Z]+-\d+)\<close> for Case, \<^verbatim>\<open>(T\d+\.\d+)\<close> and \<^verbatim>\<open>(T\d+)\<close> for
  New Holland.
\<close>

definition jd_patterns :: "regex list" where
  "jd_patterns =
     [Grp (cat [Rep isdigit 1 None, Rep upper_AZ 1 None, Rep (\<lambda>c. c = CHR ''R'') 0 (Some 1)]),
      Grp (cat [Rep upper_AZ 1 (Some 1), Rep isdigit 1 None, Rep upper_AZ 0 (Some 1)])]"

definition case_patterns :: "regex list" where
  "case_patterns =
     [Grp (cat [Rep isdigit 1 None, Rep upper_AZ 1 None]),
      Grp (cat [Rep upper_AZ 1 None, Lit ''-'', Rep isdigit 1 None])]"

definition nh_patterns :: "regex list" where
  "nh_patterns =
     [Grp (cat [Lit ''T'', Rep isdigit 1 None, Lit ''.'', Rep isdigit 1 None]),
      Grp (cat [Lit ''T'', Rep isdigit 1 None])]"

text \<open>
  \<^verbatim>\<open>
  for pattern in patterns:
      matches = re.search(pattern, text)
      if matches: ... matches.group(1) ...; break
  \<close>
\<close>

fun first_search :: "regex list \<Rightarrow> string \<Rightarrow> string list option" where
  "first_search [] t = None"
| "first_search (p # ps) t =
     (case re_search p t of None \<Rightarrow> first_search ps t | Some m \<Rightarrow> Some m)"

definition first_model :: "regex list \<Rightarrow> string \<Rightarrow> string" where
  "first_model patterns t =
     (case first_search patterns t of None \<Rightarrow> ''Unknown Model'' | Some m \<Rightarrow> m_group m 1)"

text \<open>
  The four steps of the function, in its order. First the hint:
  \<^verbatim>\<open>
  detected_brand = "Unknown"
  if make_hint:
      make_upper = make_hint.upper()
      for brand in brands:
          if brand.upper() in make_upper or make_upper in brand.upper():
              detected_brand = brand; break
  \<close>
\<close>

definition brand_from_hint :: "string option \<Rightarrow> string" where
  "brand_from_hint make_hint =
     (case make_hint of
        None \<Rightarrow> ''Unknown''
      | Some h \<Rightarrow>
          if h = [] then ''Unknown''
          else (let make_upper = upper h
                in case find (\<lambda>brand. py_in (upper brand) make_upper
                                 \<or> py_in make_upper (upper brand)) brands of
                     None \<Rightarrow> ''Unknown''
                   | Some brand \<Rightarrow> brand))"

text \<open>Then the text, if the hint gave nothing.\<close>

definition brand_from_text :: "string \<Rightarrow> string \<Rightarrow> string" where
  "brand_from_text t detected_brand =
     (if detected_brand = ''Unknown''
      then (case find (\<lambda>brand. py_in brand t) brands of
              None \<Rightarrow> detected_brand
            | Some brand \<Rightarrow> brand)
      else detected_brand)"

text \<open>The \<^verbatim>\<open>if\<close>/\<^verbatim>\<open>elif\<close> chain that normalises the brand name.\<close>

definition normalize_brand :: "string \<Rightarrow> string" where
  "normalize_brand detected_brand =
     (if py_in ''JOHN DEERE'' (upper detected_brand) then ''John Deere''
      else if py_in ''CASE'' (upper detected_brand) then ''Case''
      else if py_in ''NEW HOLLAND'' (upper detected_brand) then ''New Holland''
      else if py_in ''KUBOTA'' (upper detected_brand) then ''Kubota''
      else if py_in ''MASSEY'' (upper detected_brand) then ''Massey Ferguson''
      else detected_brand)"

text \<open>The model number, by the patterns of the brand.\<close>

definition model_for_brand :: "string \<Rightarrow> string \<Rightarrow> string" where
  "model_for_brand detected_brand t =
     (if py_in ''John Deere'' detected_brand then first_model jd_patterns t
      else if py_in ''Case'' detected_brand then first_model case_patterns t
      else if py_in ''New Holland'' detected_brand then first_model nh_patterns t
      else ''Unknown Model'')"

definition extract_equipment_brand_and_model :: "string \<Rightarrow> string option \<Rightarrow> string \<times> string" where
  "extract_equipment_brand_and_model t make_hint =
     (let detected_brand = normalize_brand (brand_from_text t (brand_from_hint make_hint))
      in (detected_brand, model_for_brand detected_brand t))"

subsection \<open>extract\_auction\_company\<close>

text \<open>
  \<^verbatim>\<open>([A-Z][A-Z\s&]+AUCTION)\<close>, \<^verbatim>\<open>([A-Z][A-Z\s&]+AUCTIONEERS)\<close>,
  \<^verbatim>\<open>AUCTION[S]?:\s*([A-Za-z\s&]+)\<close> and, for the location,
  \<^verbatim>\<open>(?:in|at)\s+([A-Z][a-z]+(?:\s+[A-Z][a-z]+)?),\s+([A-Z]{2})\<close>.
\<close>

definition auction_patterns :: "regex list" where
  "auction_patterns =
     [Grp (cat [Rep upper_AZ 1 (Some 1),
                Rep (\<lambda>c. upper_AZ c \<or> isspace c \<or> c = CHR ''&'') 1 None, Lit ''AUCTION'']),
      Grp (cat [Rep upper_AZ 1 (Some 1),
                Rep (\<lambda>c. upper_AZ c \<or> isspace c \<or> c = CHR ''&'') 1 None, Lit ''AUCTIONEERS'']),
      cat [Lit ''AUCTION'', Rep (\<lambda>c. c = CHR ''S'') 0 (Some 1), Lit '':'', Rep isspace 0 None,
           Grp (Rep (\<lambda>c. upper_AZ c \<or> lower_az c \<or> isspace c \<or> c = CHR ''&'') 1 None)]]"

definition location_pattern :: regex where
  "location_pattern =
     cat [Alt (Lit ''in'') (Lit ''at''), Rep isspace 1 None,
          Grp (cat [Rep upper_AZ 1 (Some 1), Rep lower_az 1 None,
                    Opt (cat [Rep isspace 1 None, Rep upper_AZ 1 (Some 1), Rep lower_az 1 None])]),
          Lit '','', Rep isspace 1 None, Grp (Rep upper_AZ 2 (Some 2))]"

definition extract_auction_company :: "string \<Rightarrow> string" where
  "extract_auction_company t =
     (case first_search auction_patterns t of
        Some m \<Rightarrow> strip (m_group m 1)
      | None \<Rightarrow>
          (case re_search location_pattern t of
             Some m \<Rightarrow> m_group m 1 @ '', '' @ m_group m 2
           | None \<Rightarrow> ''Unknown Auction''))"

section \<open>Dates: the functions of Python's datetime the retriever calls\<close>

text \<open>
  A naive \<^verbatim>\<open>datetime\<close> is modelled as its number of microseconds counted from the
  midnight that begins day 0 of the proleptic Gregorian ordinal (day 1 is 0001-01-01),
  so that comparison is \<open>\<le>\<close> and adding a \<^verbatim>\<open>timedelta\<close> is addition.
\<close>

type_synonym datetime = int

definition us_per_day :: int where
  "us_per_day = 86400000000"

definition timedelta_days :: "int \<Rightarrow> int" where
  "timedelta_days k = k * us_per_day"

definition is_leap :: "int \<Rightarrow> bool" where
  "is_leap y = (y mod 4 = 0 \<and> (y mod 100 \<noteq> 0 \<or> y mod 400 = 0))"

definition days_in_month :: "int \<Rightarrow> int \<Rightarrow> int" where
  "days_in_month y m =
     (if m = 2 then (if is_leap y then 29 else 28)
      else if m \<in> {4, 6, 9, 11} then 30 else 31)"

definition days_before_year :: "int \<Rightarrow> int" where
  "days_before_year y = (y - 1) * 365 + (y - 1) div 4 - (y - 1) div 100 + (y - 1) div 400"

definition days_before_month :: "int \<Rightarrow> int \<Rightarrow> int" where
  "days_before_month y m = sum_list (map (days_in_month y) [1 .. m - 1])"

definition ymd2ord :: "int \<Rightarrow> int \<Rightarrow> int \<Rightarrow> int" where
  "ymd2ord y m d = days_before_year y + days_before_month y m + d"

text \<open>The constructor \<^verbatim>\<open>datetime(y, m, d)\<close> raises \<^verbatim>\<open>ValueError\<close> unless:\<close>

definition valid_date :: "int \<Rightarrow> int \<Rightarrow> int \<Rightarrow> bool" where
  "valid_date y m d =
     (1 \<le> y \<and> y \<le> 9999 \<and> 1 \<le> m \<and> m \<le> 12 \<and> 1 \<le> d \<and> d \<le> days_in_month y m)"

text \<open>The inverse of \<open>ymd2ord\<close>, as \<^verbatim>\<open>datetime._ord2ymd\<close> computes it.\<close>

definition ord2ymd :: "int \<Rightarrow> int \<times> int \<times> int" where
  "ord2ymd ordinal =
     (let n0 = ordinal - 1;
          n400 = n0 div 146097; r400 = n0 mod 146097;
          n100 = r400 div 36524; r100 = r400 mod 36524;
          n4 = r100 div 1461; r4 = r100 mod 1461;
          n1 = r4 div 365; n = r4 mod 365;
          year = n400 * 400 + 1 + n100 * 100 + n4 * 4 + n1
      in if n1 = 4 \<or> n100 = 4 then (year - 1, 12, 31)
         else
           (let leapyear = (n1 = 3 \<and> (n4 \<noteq> 24 \<or> n100 = 3));
                month = (n + 50) div 32;
                preceding =
                  [0, 0, 31, 59, 90, 120, 151, 181, 212, 243, 273, 304, 334] ! nat month
                  + (if 2 < month \<and> leapyear then 1 else 0)
            in if n < preceding
               then (let month' = month - 1;
                         preceding' =
                           preceding
                           - ([0, 31, 28, 31, 30, 31, 30, 31, 31, 30, 31, 30, 31] ! nat month'
                              + (if month' = 2 \<and> leapyear then 1 else 0))
                     in (year, month', n - preceding' + 1))
               else (year, month, n - preceding + 1)))"

text \<open>
  \<^verbatim>\<open>strftime("%Y-%m-%d")\<close>; the year is printed with four digits (no padding is needed
  from the year 1000 on).
\<close>

definition strftime_ymd :: "datetime \<Rightarrow> string" where
  "strftime_ymd t =
     (case ord2ymd (t div us_per_day) of
        (y, m, d) \<Rightarrow>
          (let ys = str_nat (nat y)
           in replicate (4 - length ys) CHR ''0'' @ ys @ ''-'' @ fmt02 (nat m) @ ''-''
              @ fmt02 (nat d)))"

text \<open>
  \<^verbatim>\<open>datetime.strptime(s, "%Y-%m-%d")\<close>: the format becomes the regular expression
  \<^verbatim>\<open>(?P<Y>\d\d\d\d)-(?P<m>1[0-2]|0[1-9]|[1-9])-(?P<d>3[0-1]|[1-2]\d|0[1-9]|[1-9]| [1-9])\<close>,
  is matched at the start of the string, must leave nothing unconverted and must give a
  date that exists. \<open>None\<close> stands for the \<^verbatim>\<open>ValueError\<close>.
\<close>

definition one_of :: "string \<Rightarrow> regex" where
  "one_of cs = Rep (\<lambda>c. c \<in> set cs) 1 (Some 1)"

definition strptime_format :: regex where
  "strptime_format =
     cat [Grp (Rep isdigit 4 (Some 4)), Lit ''-'',
          Grp (alts [cat [Lit ''1'', one_of ''012''], cat [Lit ''0'', one_of ''123456789''],
                     one_of ''123456789'']),
          Lit ''-'',
          Grp (alts [cat [Lit ''3'', one_of ''01''], cat [one_of ''12'', Rep isdigit 1 (Some 1)],
                     cat [Lit ''0'', one_of ''123456789''], one_of ''123456789'',
                     cat [Lit '' '', one_of ''123456789'']])]"

definition strptime_ymd :: "string \<Rightarrow> datetime option" where
  "strptime_ymd s =
     (case matches strptime_format s of
        [] \<Rightarrow> None
      | (m, n) # _ \<Rightarrow>
          if n \<noteq> length s then None
          else (case py_int (m_group m 1) of None \<Rightarrow> None
                | Some y \<Rightarrow>
                    (case py_int (m_group m 2) of None \<Rightarrow> None
                     | Some mo \<Rightarrow>
                         (case py_int (m_group m 3) of None \<Rightarrow> None
                          | Some d \<Rightarrow>
                              if valid_date (int y) (int mo) (int d)
                              then Some (ymd2ord (int y) (int mo) (int d) * us_per_day)
                              else None))))"

section \<open>The retriever's pipeline (search\_with\_rag)\<close>

subsection \<open>Building the sale records\<close>

text \<open>
  The body of the loop over the search results, for a result whose text is \<open>content\<close>;
  \<open>None\<close> is a \<^verbatim>\<open>continue\<close>. \<open>now\<close> is the value of \<^verbatim>\<open>datetime.now()\<close> and
  \<open>make_hint\<close> the brand hint (the argument \<^verbatim>\<open>make\<close>). The source reads the clock for
  each default date and once more for the cut-offs of the recency filter; the model
  takes one instant for all.
\<close>

definition build_item :: "datetime \<Rightarrow> string option \<Rightarrow> string \<Rightarrow> sale_item option" where
  "build_item now make_hint content =
     (if content = [] then None
      else
        (let clean_content = clean_and_normalize_text content;
             truncated_content = take 1000 clean_content;
             all_prices = extract_prices clean_content;
             thirty_days_ago = strftime_ymd (now - timedelta_days 30);
             extracted_date =
               (case extract_date clean_content of
                  None \<Rightarrow> thirty_days_ago
                | Some d \<Rightarrow> if d = [] then thirty_days_ago else d);
             brand_model = extract_equipment_brand_and_model clean_content make_hint;
             auction = extract_auction_company clean_content;
             avg_price =
               (if all_prices \<noteq> [] then sum_list all_prices / of_nat (length all_prices)
                else 0)
         in if avg_price < 1000 then None
            else
              (let item_nm = fst brand_model @ '' '' @ snd brand_model;
                   sale = item_nm @ '' - '' @ auction
               in Some \<lparr>sale_id = sale, item_name = item_nm, auction_company = auction,
                        price = avg_price, sale_date = extracted_date,
                        item_text = truncated_content\<rparr>)))"

subsection \<open>The recency filter\<close>

text \<open>
  The body of the loop that fills \<^verbatim>\<open>recent_90_day_results\<close> and
  \<^verbatim>\<open>recent_180_day_results\<close>:
  \<^verbatim>\<open>
  try:
      sale_date = datetime.strptime(item['sale_date'], "%Y-%m-%d")
      if sale_date >= cutoff_90_days: recent_90_day_results.append(item)
      elif sale_date >= cutoff_180_days: recent_180_day_results.append(item)
  except Exception as e:
      recent_180_day_results.append(item)
  \<close>
\<close>

definition bucket_item ::
  "datetime \<Rightarrow> sale_item list \<times> sale_item list \<Rightarrow> sale_item \<Rightarrow> sale_item list \<times> sale_item list" where
  "bucket_item now buckets item =
     (case buckets of
        (recent_90, recent_180) \<Rightarrow>
          (case strptime_ymd (sale_date item) of
             None \<Rightarrow> (recent_90, recent_180 @ [item])
           | Some sd \<Rightarrow>
               if now - timedelta_days 90 \<le> sd then (recent_90 @ [item], recent_180)
               else if now - timedelta_days 180 \<le> sd then (recent_90, recent_180 @ [item])
               else (recent_90, recent_180)))"

definition recency_filter :: "datetime \<Rightarrow> sale_item list \<Rightarrow> sale_item list" where
  "recency_filter now serializable_results =
     (case foldl (bucket_item now) ([], []) serializable_results of
        (recent_90, recent_180) \<Rightarrow>
          (let recent_results =
                 (if length recent_90 < 3 then recent_90 @ recent_180 else recent_90)
           in if length recent_results < 3 then serializable_results else recent_results))"

subsection \<open>The outlier remover\<close>

text \<open>
  \<^verbatim>\<open>numpy.percentile(prices, q)\<close> with its default linear interpolation, on a non-empty
  list: the value at the position \<open>q / 100 * (n - 1)\<close> of the sorted prices.
\<close>

definition percentile :: "rat list \<Rightarrow> rat \<Rightarrow> rat" where
  "percentile xs q =
     (let sorted_xs = sort xs;
          n = length xs;
          pos = q / 100 * of_nat (n - 1);
          lo = nat \<lfloor>pos\<rfloor>;
          hi = min (lo + 1) (n - 1);
          g = pos - of_nat lo
      in sorted_xs ! lo + g * (sorted_xs ! hi - sorted_xs ! lo))"

definition remove_outliers :: "sale_item list \<Rightarrow> sale_item list" where
  "remove_outliers recent_results =
     (if 5 \<le> length recent_results then
        (let prices = map price recent_results;
             q1 = percentile prices 25;
             q3 = percentile prices 75;
             iqr = q3 - q1;
             lower_bound = q1 - 3 / 2 * iqr;
             upper_bound = q3 + 3 / 2 * iqr;
             filtered_results =
               filter (\<lambda>item. lower_bound \<le> price item \<and> price item \<le> upper_bound)
                 recent_results;
             removed_count = length recent_results - length filtered_results
         in if 0 < removed_count
            then (if 3 \<le> length filtered_results then filtered_results else recent_results)
            else recent_results)
      else recent_results)"

subsection \<open>search\_with\_rag and the chain of the orchestrator\<close>

text \<open>
  \<open>results\<close> are the texts of the vector store's search results, \<open>None\<close> when the
  search raises: the handler of \<^verbatim>\<open>search_with_rag\<close> then returns the empty list. A result
  without text is skipped by \<open>build_item\<close>.
\<close>

definition search_with_rag :: "datetime \<Rightarrow> string option \<Rightarrow> string list option \<Rightarrow> sale_item list" where
  "search_with_rag now make_hint results =
     (case results of
        None \<Rightarrow> []
      | Some rs \<Rightarrow> remove_outliers (recency_filter now (List.map_filter (build_item now make_hint) rs)))"

text \<open>
  \<^verbatim>\<open>run_chain\<close> of the orchestrator: the retriever's list goes to the valuator as it is
  (the retriever's \<^verbatim>\<open>acall\<close> returns it unchanged, empty or not); the formatter that
  follows renames the keys of the valuator's dictionary.
\<close>

definition run_chain :: "datetime \<Rightarrow> string option \<Rightarrow> string list option \<Rightarrow> valuation" where
  "run_chain now make_hint results = valuator_acall (search_with_rag now make_hint results)"

section \<open>Notions the statements below use\<close>

text \<open>A comparable sale with a given price and sale date, for the concrete instances.\<close>

definition sale_at :: "rat \<Rightarrow> string \<Rightarrow> sale_item" where
  "sale_at p d =
     \<lparr>sale_id = ''John Deere 8370R - BIG IRON AUCTION'', item_name = ''John Deere 8370R'',
      auction_company = ''BIG IRON AUCTION'', price = p, sale_date = d, item_text = []\<rparr>"

text \<open>The instant 2024-08-12 09:30:00, for the concrete instances.\<close>

definition now_example :: datetime where
  "now_example = 739110 * us_per_day + 34200000000"


text \<open>
  The two buckets of the recency filter, stated apart from the loop that fills them: a
  sale is within 90 days when its date parses and is not before \<open>now\<close> minus 90 days; it
  is in the 90-to-180-day bucket when its date parses, is before \<open>now\<close> minus 90 days
  and not before \<open>now\<close> minus 180 days, or when its date does not parse.
\<close>

definition within_90 :: "datetime \<Rightarrow> sale_item \<Rightarrow> bool" where
  "within_90 now item =
     (case strptime_ymd (sale_date item) of
        None \<Rightarrow> False
      | Some sd \<Rightarrow> now - timedelta_days 90 \<le> sd)"

definition within_180 :: "datetime \<Rightarrow> sale_item \<Rightarrow> bool" where
  "within_180 now item =
     (case strptime_ymd (sale_date item) of
        None \<Rightarrow> True
      | Some sd \<Rightarrow> sd < now - timedelta_days 90 \<and> now - timedelta_days 180 \<le> sd)"

text \<open>The bounds \<open>[Q1 - 1.5 IQR, Q3 + 1.5 IQR]\<close> of a list of prices.\<close>

definition iqr_bounds :: "rat list \<Rightarrow> rat \<times> rat" where
  "iqr_bounds prices =
     (let q1 = percentile prices 25; q3 = percentile prices 75
      in (q1 - 3 / 2 * (q3 - q1), q3 + 3 / 2 * (q3 - q1)))"

definition within_bounds :: "rat \<times> rat \<Rightarrow> sale_item \<Rightarrow> bool" where
  "within_bounds bounds item = (fst bounds \<le> price item \<and> price item \<le> snd bounds)"

text \<open>
  The price a matched text stands for, if it is one the extractor keeps: the text without
  its commas, read as a number, in the range from 1000 to 1000000.
\<close>

definition kept_price :: "string \<Rightarrow> rat option" where
  "kept_price match =
     (case py_float (filter (\<lambda>c. c \<noteq> CHR '','') match) of
        None \<Rightarrow> None
      | Some p \<Rightarrow> if 1000 \<le> p \<and> p \<le> 1000000 then Some p else None)"

text \<open>The shape \<^verbatim>\<open>YYYY-MM-DD\<close>: four digits, two digits, two digits, joined by hyphens.\<close>

definition iso_shaped :: "string \<Rightarrow> bool" where
  "iso_shaped d =
     (length d = 10 \<and> list_all isdigit (take 4 d) \<and> d ! 4 = CHR ''-''
      \<and> list_all isdigit (take 2 (drop 5 d)) \<and> d ! 7 = CHR ''-''
      \<and> list_all isdigit (drop 8 d))"

text \<open>A run of \<open>lo\<close> to \<open>hi\<close> decimal digits.\<close>

definition digits_between :: "nat \<Rightarrow> nat \<Rightarrow> string \<Rightarrow> bool" where
  "digits_between lo hi g = (list_all isdigit g \<and> lo \<le> length g \<and> length g \<le> hi)"

section \<open>Properties of the offline valuator\<close>




text \<open>
  Claim C2, as the code has it. The label depends on the number of comparable sales
  alone: it is \<open>High\<close> exactly from five sales on, \<open>Medium\<close> exactly for three or four,
  and \<open>Low\<close> exactly below three. The dispersion of the prices is not consulted.
\<close>

theorem valuator_confidence_by_count:
  "(confidence (valuator_acall comps) = High) = (5 \<le> length comps)
   \<and> (confidence (valuator_acall comps) = Medium) = (3 \<le> length comps \<and> length comps < 5)
   \<and> (confidence (valuator_acall comps) = Low) = (length comps < 3)"
  by (simp add: valuator_acall_def Let_def)

text \<open>
  Claim C2 as stated fails: five sales get the label \<open>High\<close>, although the sample is
  smaller than 25 (and smaller than 10).
\<close>

theorem valuator_confidence_counterexample:
  "confidence (valuator_acall (replicate 5 (sale_at 150000 ''2024-08-01''))) = High
   \<and> length (replicate 5 (sale_at 150000 ''2024-08-01'')) < 10"
  by (simp add: valuator_acall_def Let_def)




section \<open>Properties of the retriever's filters\<close>

lemma foldl_bucket_item:
  "foldl (bucket_item now) (a, b) xs
   = (a @ filter (within_90 now) xs, b @ filter (within_180 now) xs)"
  by (induction xs arbitrary: a b)
     (auto simp: bucket_item_def within_90_def within_180_def split: option.splits)

text \<open>
  Claim C4. The recency filter returns the sales within 90 days when there are at least
  three of them; otherwise those followed by the sales of the 90-to-180-day bucket
  (among them every sale whose date does not parse) when the two together are at least
  three; otherwise the whole input. Within each bucket the sales keep their input order.
\<close>

theorem recency_filter_policy:
  "recency_filter now xs =
     (if 3 \<le> length (filter (within_90 now) xs) then filter (within_90 now) xs
      else if 3 \<le> length (filter (within_90 now) xs) + length (filter (within_180 now) xs)
      then filter (within_90 now) xs @ filter (within_180 now) xs
      else xs)"
  by (simp add: recency_filter_def foldl_bucket_item Let_def)

text \<open>
  An instance on 2024-08-12: one sale eleven days old, one 133 days old, one with the
  date \<^verbatim>\<open>2023-13-45\<close>, which does not parse, and one of 2020, which is dropped.
\<close>

lemma recency_filter_example:
  "recency_filter now_example
     [sale_at 1000 ''2023-13-45'', sale_at 2000 ''2020-01-01'', sale_at 3000 ''2024-04-01'',
      sale_at 4000 ''2024-08-01'']
   = [sale_at 4000 ''2024-08-01'', sale_at 1000 ''2023-13-45'', sale_at 3000 ''2024-04-01'']"
  by code_simp

lemma filter_same_length: "length (filter P xs) = length xs \<Longrightarrow> filter P xs = xs"
proof -
  assume eq: "length (filter P xs) = length xs"
  have "P x" if "x \<in> set xs" for x
  proof (rule ccontr)
    assume "\<not> P x"
    with that have "length (filter P xs) < length xs"
      by (rule length_filter_less)
    with eq show False by simp
  qed
  then show ?thesis by (simp add: filter_id_conv)
qed

lemma remove_outliers_eq:
  "remove_outliers xs =
     (if 5 \<le> length xs \<and> 3 \<le> length (filter (within_bounds (iqr_bounds (map price xs))) xs)
      then filter (within_bounds (iqr_bounds (map price xs))) xs else xs)"
proof -
  define lower where
    "lower = percentile (map price xs) 25
             - 3 / 2 * (percentile (map price xs) 75 - percentile (map price xs) 25)"
  define upper where
    "upper = percentile (map price xs) 75
             + 3 / 2 * (percentile (map price xs) 75 - percentile (map price xs) 25)"
  define kept where "kept = filter (\<lambda>item. lower \<le> price item \<and> price item \<le> upper) xs"
  have wb: "filter (within_bounds (iqr_bounds (map price xs))) xs = kept"
    unfolding kept_def lower_def upper_def iqr_bounds_def within_bounds_def Let_def
    by simp
  have ro: "remove_outliers xs =
              (if 5 \<le> length xs
               then (if 0 < length xs - length kept
                     then (if 3 \<le> length kept then kept else xs) else xs)
               else xs)"
    unfolding remove_outliers_def Let_def kept_def lower_def upper_def ..
  have le: "length kept \<le> length xs"
    by (simp add: kept_def)
  have same: "kept = xs" if "\<not> 0 < length xs - length kept"
  proof -
    from that le have "length kept = length xs" by simp
    then show ?thesis unfolding kept_def by (rule filter_same_length)
  qed
  show ?thesis
    unfolding wb ro using same by auto
qed

lemma recency_filter_subset: "set (recency_filter now xs) \<subseteq> set xs"
  by (auto simp: recency_filter_def foldl_bucket_item Let_def)

lemma remove_outliers_subset: "set (remove_outliers xs) \<subseteq> set xs"
  by (auto simp: remove_outliers_eq)



text \<open>An instance in which the sale at 1000000 is dropped as an outlier.\<close>

lemma remove_outliers_example:
  "remove_outliers
     (map (\<lambda>p. sale_at p ''2024-08-01'') [100000, 1000000, 101000, 102000, 103000])
   = map (\<lambda>p. sale_at p ''2024-08-01'') [100000, 101000, 102000, 103000]"
  by (simp add: remove_outliers_def percentile_def Let_def sale_at_def)

section \<open>The chain on an empty sample\<close>

text \<open>
  Claim C1, as the code has it. When no sale record survives the retriever, the chain
  raises no error: the valuator returns a dictionary without the key \<^verbatim>\<open>error\<close>, with
  the fair-market value 0, the label \<open>Low\<close>, zero adjustments and no supporting sale.
\<close>

theorem run_chain_without_records:
  assumes "search_with_rag now make_hint results = []"
  shows "run_chain now make_hint results =
           \<lparr>error = None, fmv = 0, confidence = Low,
            adjustments = \<lparr>age = 0, usage = 0, condition = 0\<rparr>, top3 = [],
            explanation = ''Dummy valuation using sample data''\<rparr>"
  using assms by (simp add: run_chain_def valuator_acall_def Let_def)

theorem run_chain_without_records_witness:
  "search_with_rag now_example None (Some [''Kubota tractor, not sold'']) = []
   \<and> fmv (run_chain now_example None (Some [''Kubota tractor, not sold''])) = 0"
proof -
  have none: "search_with_rag now_example None (Some [''Kubota tractor, not sold'']) = []"
    by code_simp
  from run_chain_without_records [OF none] none show ?thesis
    by simp
qed

text \<open>
  Claim C1 as stated fails: on the empty list of passages the chain returns a result,
  with the fair-market value 0, and no error.
\<close>

theorem run_chain_empty_counterexample:
  "run_chain now_example (Some ''John Deere'') (Some []) =
     \<lparr>error = None, fmv = 0, confidence = Low,
      adjustments = \<lparr>age = 0, usage = 0, condition = 0\<rparr>, top3 = [],
      explanation = ''Dummy valuation using sample data''\<rparr>"
  by code_simp

section \<open>Properties of the text functions\<close>

subsection \<open>The normaliser\<close>

text \<open>
  Claim C7 fails on an amount with two groups of thousands, such as the largest price
  the extractor accepts: the pattern rewrites the first comma only, and a second run of
  the normaliser rewrites the next one.
\<close>

theorem normalize_twice_differs:
  "clean_and_normalize_text ''$1,000,000'' = ''$1000,000''
   \<and> clean_and_normalize_text (clean_and_normalize_text ''$1,000,000'') = ''$1000000''"
  by code_simp

subsection \<open>Prices\<close>

lemma foldl_add_price: "foldl add_price acc ms = acc @ List.map_filter kept_price ms"
  by (induction ms arbitrary: acc)
     (auto simp: add_price_def kept_price_def List.map_filter_simps split: option.splits)

lemma foldl_patterns:
  "foldl (\<lambda>all_prices pattern. foldl add_price all_prices (f pattern)) acc ps
   = acc @ concat (map (\<lambda>pattern. List.map_filter kept_price (f pattern)) ps)"
  by (induction ps arbitrary: acc) (simp_all add: foldl_add_price)

lemma kept_price_range: "kept_price m = Some p \<Longrightarrow> 1000 \<le> p \<and> p \<le> 1000000"
  by (auto simp: kept_price_def split: option.splits if_splits)

lemmas price_eval =
  extract_prices_def price_patterns_def decimals_def cat_def re_findall_def add_price_def
  py_float_def py_int_def strip_def isspace_def isdigit_def digit_value_def price_char_def
  m_group_def

text \<open>
  Claim C8, as the code has it. The extractor returns the kept prices pattern by
  pattern: those of the matches of the \<^verbatim>\<open>$\<close> pattern, then those of the \<^verbatim>\<open>dollars\<close>
  pattern, then those of the \<^verbatim>\<open>USD\<close> pattern, each group in the order of the text and
  with duplicates. Every price returned lies between 1000 and 1000000.
\<close>

theorem extract_prices_by_pattern:
  "extract_prices t =
     concat (map (\<lambda>pattern. List.map_filter kept_price
                               (map (\<lambda>m. m_group m 1) (re_findall pattern t)))
                 price_patterns)
   \<and> (\<forall>p \<in> set (extract_prices t). 1000 \<le> p \<and> p \<le> 1000000)"
proof -
  have eq: "extract_prices t =
     concat (map (\<lambda>pattern. List.map_filter kept_price
                               (map (\<lambda>m. m_group m 1) (re_findall pattern t)))
                 price_patterns)"
    unfolding extract_prices_def by (simp add: foldl_patterns)
  have "1000 \<le> p \<and> p \<le> 1000000" if "p \<in> set (extract_prices t)" for p
    using that unfolding eq
    by (auto simp: List.map_filter_def dest: kept_price_range)
  with eq show ?thesis by blast
qed

theorem extract_prices_by_pattern_witness:
  "extract_prices ''2500 USD, $2,000.50 or 3000 dollars; lot $120'' = [2000, 3000, 2500]
   \<and> (1000 :: rat) \<le> 2500 \<and> (2500 :: rat) \<le> 1000000"
proof -
  have ev: "extract_prices ''2500 USD, $2,000.50 or 3000 dollars; lot $120''
            = [2000, 3000, 2500]"
    by (simp add: price_eval)
  from extract_prices_by_pattern [of "''2500 USD, $2,000.50 or 3000 dollars; lot $120''"] ev
  show ?thesis by simp
qed

text \<open>
  Claim C8 as stated fails: in this text 5000 stands before 2000, and the extractor
  returns 2000 first.
\<close>

theorem extract_prices_order_counterexample:
  "extract_prices ''5000 dollars and $2000'' = [2000, 5000]"
  by (simp add: price_eval)

subsection \<open>Brand and model\<close>

lemma take_is_head: "take (length x) zs = x \<longleftrightarrow> (\<exists>s. zs = x @ s)"
proof
  assume "take (length x) zs = x"
  then have "zs = x @ drop (length x) zs"
    by (metis append_take_drop_id)
  then show "\<exists>s. zs = x @ s" ..
next
  assume "\<exists>s. zs = x @ s"
  then show "take (length x) zs = x" by auto
qed

lemma py_in_iff: "py_in x ys \<longleftrightarrow> (\<exists>p s. ys = p @ x @ s)"
proof (induction ys)
  case Nil
  then show ?case by auto
next
  case (Cons y ys)
  show ?case
  proof
    assume "py_in x (y # ys)"
    then consider "take (length x) (y # ys) = x" | "py_in x ys" by auto
    then show "\<exists>p s. y # ys = p @ x @ s"
    proof cases
      case 1
      then obtain s where "y # ys = x @ s" unfolding take_is_head ..
      then have "y # ys = [] @ x @ s" by simp
      then show ?thesis by blast
    next
      case 2
      with Cons obtain p s where "ys = p @ x @ s" by blast
      then have "y # ys = (y # p) @ x @ s" by simp
      then show ?thesis by blast
    qed
  next
    assume "\<exists>p s. y # ys = p @ x @ s"
    then obtain p s where eq: "y # ys = p @ x @ s" by blast
    show "py_in x (y # ys)"
    proof (cases p)
      case Nil
      with eq have "take (length x) (y # ys) = x" unfolding take_is_head by auto
      then show ?thesis by simp
    next
      case (Cons a p')
      with eq have "ys = p' @ x @ s" by simp
      with Cons.IH have "py_in x ys" by blast
      then show ?thesis by simp
    qed
  qed
qed

lemma upper_append: "upper (a @ b) = upper a @ upper b"
  by (simp add: upper_def)

lemma py_in_upper: "py_in x ys \<Longrightarrow> py_in (upper x) (upper ys)"
proof -
  assume "py_in x ys"
  then obtain p s where "ys = p @ x @ s"
    unfolding py_in_iff by blast
  then have "upper ys = upper p @ upper x @ upper s"
    by (simp add: upper_append)
  then show ?thesis
    unfolding py_in_iff by blast
qed

lemma upper_names:
  "upper ''John Deere'' = ''JOHN DEERE''" "upper ''Case'' = ''CASE''"
  "upper ''New Holland'' = ''NEW HOLLAND''"
  by code_simp+

lemma other_names:
  "\<not> py_in ''John Deere'' ''Kubota''" "\<not> py_in ''Case'' ''Kubota''"
  "\<not> py_in ''New Holland'' ''Kubota''"
  "\<not> py_in ''John Deere'' ''Massey Ferguson''" "\<not> py_in ''Case'' ''Massey Ferguson''"
  "\<not> py_in ''New Holland'' ''Massey Ferguson''"
  by code_simp+

lemma model_for_other_brand:
  assumes "normalize_brand b \<notin> {''John Deere'', ''Case'', ''New Holland''}"
  shows "model_for_brand (normalize_brand b) t = ''Unknown Model''"
proof -
  from assms have no_upper:
    "\<not> py_in ''JOHN DEERE'' (upper b)" "\<not> py_in ''CASE'' (upper b)"
    "\<not> py_in ''NEW HOLLAND'' (upper b)"
    by (auto simp: normalize_brand_def split: if_splits)
  then have plain: "\<not> py_in ''John Deere'' b" "\<not> py_in ''Case'' b" "\<not> py_in ''New Holland'' b"
    using py_in_upper [of "''John Deere''" b] py_in_upper [of "''Case''" b]
      py_in_upper [of "''New Holland''" b]
    by (auto simp: upper_names)
  from no_upper have "normalize_brand b \<in> {''Kubota'', ''Massey Ferguson'', b}"
    by (simp add: normalize_brand_def)
  with plain other_names show ?thesis
    by (auto simp: model_for_brand_def)
qed

text \<open>
  Claim C10. When the brand the extractor returns is none of John Deere, Case and
  New Holland, the model it returns is \<^verbatim>\<open>Unknown Model\<close>.
\<close>

theorem model_unknown_for_other_brands:
  assumes "fst (extract_equipment_brand_and_model t make_hint)
           \<notin> {''John Deere'', ''Case'', ''New Holland''}"
  shows "snd (extract_equipment_brand_and_model t make_hint) = ''Unknown Model''"
  using assms model_for_other_brand [of "brand_from_text t (brand_from_hint make_hint)" t]
  by (simp add: extract_equipment_brand_and_model_def Let_def)

theorem model_unknown_for_other_brands_witness:
  "fst (extract_equipment_brand_and_model ''KUBOTA M7-172, 2100 hours'' (Some ''Kubota''))
     \<notin> {''John Deere'', ''Case'', ''New Holland''}
   \<and> extract_equipment_brand_and_model ''KUBOTA M7-172, 2100 hours'' (Some ''Kubota'')
       = (''Kubota'', ''Unknown Model'')"
proof -
  have b: "fst (extract_equipment_brand_and_model ''KUBOTA M7-172, 2100 hours'' (Some ''Kubota''))
           = ''Kubota''"
    by code_simp
  have out: "fst (extract_equipment_brand_and_model ''KUBOTA M7-172, 2100 hours'' (Some ''Kubota''))
     \<notin> {''John Deere'', ''Case'', ''New Holland''}"
    unfolding b by simp
  from model_unknown_for_other_brands [OF out] out b show ?thesis
    by (simp add: prod_eq_iff)
qed


subsection \<open>Dates\<close>

lemma re_search_matches:
  "re_search r t = Some m \<Longrightarrow> \<exists>u n. (m, n) \<in> set (matches r u)"
proof (induction t)
  case Nil
  show ?case
  proof (cases "matches r []")
    case Nil
    with Nil.prems show ?thesis by simp
  next
    case (Cons cn rest)
    obtain c n where cn: "cn = (c, n)" by (cases cn)
    with Cons Nil.prems have "m = c" by simp
    with Cons cn have "(m, n) \<in> set (matches r [])" by simp
    then show ?thesis by blast
  qed
next
  case (Cons x xs)
  show ?case
  proof (cases "matches r (x # xs)")
    case Nil
    with Cons show ?thesis by simp
  next
    case (Cons cn rest)
    obtain c n where cn: "cn = (c, n)" by (cases cn)
    with Cons Cons.prems have "m = c" by simp
    with Cons cn have "(m, n) \<in> set (matches r (x # xs))" by simp
    then show ?thesis by blast
  qed
qed

lemma matches_Seq:
  "(c, n) \<in> set (matches (Seq a b) inp) \<longleftrightarrow>
     (\<exists>c1 n1 c2 n2. (c1, n1) \<in> set (matches a inp) \<and> (c2, n2) \<in> set (matches b (drop n1 inp))
        \<and> c = c1 @ c2 \<and> n = n1 + n2)"
  by (auto simp: image_iff) force

lemma matches_Lit: "(c, n) \<in> set (matches (Lit s) inp) \<Longrightarrow> c = []"
  by (auto split: if_splits)

lemma matches_Rep: "(c, n) \<in> set (matches (Rep cls lo hi) inp) \<Longrightarrow> c = []"
  by (auto simp: Let_def)

lemma matches_Grp_Rep:
  assumes "(c, n) \<in> set (matches (Grp (Rep cls lo (Some hi))) inp)"
  shows "\<exists>g. c = [g] \<and> list_all cls g \<and> lo \<le> length g \<and> length g \<le> hi"
proof -
  from assms have c: "c = [take n inp]" and lo: "lo \<le> n" and hi: "n \<le> hi"
    and run: "n \<le> length (takeWhile cls inp)"
    by (auto simp: Let_def)
  from run have "take n inp = take n (takeWhile cls inp)"
    by (metis takeWhile_dropWhile_id take_append diff_is_0_eq take_0 append_Nil2)
  moreover have "list_all cls (take n (takeWhile cls inp))"
    unfolding list_all_iff by (meson in_set_takeD set_takeWhileD)
  moreover from run have "length (take n inp) = n"
    using length_takeWhile_le [of cls inp] by simp
  ultimately show ?thesis using c lo hi by simp
qed


lemma matches_date_mdy:
  assumes "(c, n) \<in> set (matches (date_mdy sep) inp)"
  shows "\<exists>a b y. c = [a, b, y] \<and> digits_between 1 2 a \<and> digits_between 1 2 b
           \<and> digits_between 4 4 y"
  using assms unfolding date_mdy_def cat_def digits_between_def
  by (auto simp: matches_Seq simp del: matches.simps dest!: matches_Grp_Rep matches_Lit)

lemma matches_date_ymd:
  assumes "(c, n) \<in> set (matches date_ymd inp)"
  shows "\<exists>y a b. c = [y, a, b] \<and> digits_between 4 4 y \<and> digits_between 1 2 a
           \<and> digits_between 1 2 b"
  using assms unfolding date_ymd_def cat_def digits_between_def
  by (auto simp: matches_Seq simp del: matches.simps dest!: matches_Grp_Rep matches_Lit)

lemma matches_alts_Lit:
  "(c, n) \<in> set (matches (alts (map Lit names)) inp) \<Longrightarrow> c = [] \<and> take n inp \<in> set names"
proof (induction names)
  case Nil
  have "takeWhile (\<lambda>c. False) inp = []"
    by (cases inp) simp_all
  with Nil show ?case by (simp add: Let_def)
next
  case (Cons a names)
  then show ?case
    by (cases names) (auto split: if_splits)
qed

lemma matches_Grp_names:
  "(c, n) \<in> set (matches (Grp (alts (map Lit names))) inp) \<Longrightarrow> \<exists>g. c = [g] \<and> g \<in> set names"
  using matches_alts_Lit [of _ _ names inp] by auto

lemma matches_date_textual:
  assumes "(c, n) \<in> set (matches date_textual inp)"
  shows "\<exists>mon a y. c = [mon, a, y] \<and> mon \<in> set month_names \<and> digits_between 1 2 a
           \<and> digits_between 4 4 y"
  using assms unfolding date_textual_def cat_def digits_between_def
  by (auto simp: matches_Seq simp del: matches.simps
      dest!: matches_Grp_Rep matches_Lit matches_Grp_names matches_Rep)


lemma isdigit_not_space: "isdigit c \<Longrightarrow> \<not> isspace c"
  by (auto simp: isdigit_def isspace_def)

lemma strip_digits: "list_all isdigit g \<Longrightarrow> strip g = g"
proof -
  assume dg: "list_all isdigit g"
  have keep: "dropWhile isspace u = u" if "list_all isdigit u" for u
    using that by (cases u) (auto simp: isdigit_not_space)
  from dg have "list_all isdigit (rev g)"
    by (simp add: list_all_iff)
  with dg show ?thesis
    by (simp add: strip_def keep)
qed

lemma digit_value_lt: "isdigit c \<Longrightarrow> digit_value c < 10"
  by (auto simp: isdigit_def digit_value_def)

lemma py_int_digits:
  assumes "digits_between 1 2 g"
  shows "\<exists>k<100. py_int g = Some k"
proof -
  from assms have dg: "list_all isdigit g" and len: "length g = 1 \<or> length g = 2"
    by (auto simp: digits_between_def)
  from len consider a where "g = [a]" | a b where "g = [a, b]"
    by (cases g; cases "tl g"; auto)
  then show ?thesis
  proof cases
    case 1
    with dg digit_value_lt [of a] show ?thesis
      by (simp add: py_int_def strip_digits Let_def)
  next
    case 2
    with dg digit_value_lt [of a] digit_value_lt [of b] show ?thesis
      by (simp add: py_int_def strip_digits Let_def)
  qed
qed

lemma isdigit_digit_char: "isdigit (digit_char d)"
proof -
  have "d mod 10 < length ''0123456789''" by simp
  then have "''0123456789'' ! (d mod 10) \<in> set ''0123456789''"
    by (rule nth_mem)
  then show ?thesis
    unfolding isdigit_def digit_char_def .
qed

lemma str_nat_two:
  assumes "k < 100"
  shows "str_nat k = (if k < 10 then [digit_char k] else [digit_char (k div 10), digit_char (k mod 10)])"
proof (cases "k < 10")
  case True
  then show ?thesis by (simp add: str_nat.simps)
next
  case False
  with assms have "k div 10 < 10" by simp
  then have "str_nat (k div 10) = [digit_char (k div 10)]"
    by (simp add: str_nat.simps)
  with False show ?thesis
    by (subst str_nat.simps) simp
qed

lemma fmt02_shape:
  assumes "k < 100"
  shows "length (fmt02 k) = 2 \<and> list_all isdigit (fmt02 k)"
  using assms isdigit_digit_char
  by (auto simp: fmt02_def str_nat_two isdigit_def)

lemma iso_date_shape:
  assumes "digits_between 4 4 y" "mo < 100" "d < 100"
  shows "\<exists>s. iso_date y (Some mo) (Some d) = Some s \<and> iso_shaped s"
proof -
  from assms(1) have y: "length y = 4" "list_all isdigit y"
    by (auto simp: digits_between_def)
  from fmt02_shape [OF assms(2)] fmt02_shape [OF assms(3)] y
  show ?thesis
    by (simp add: iso_date_def iso_shaped_def nth_append)
qed

lemma index_of_member: "x \<in> set xs \<Longrightarrow> \<exists>i<length xs. index_of xs x = Some i"
  by (induction xs) auto


lemma search_mdy:
  assumes "re_search (date_mdy sep) t = Some m"
  shows "\<exists>d. iso_date (m_group m 3) (py_int (m_group m 1)) (py_int (m_group m 2)) = Some d
             \<and> iso_shaped d"
proof -
  from re_search_matches [OF assms] obtain u n where "(m, n) \<in> set (matches (date_mdy sep) u)"
    by blast
  from matches_date_mdy [OF this] obtain a b y where
    m: "m = [a, b, y]" and a: "digits_between 1 2 a" and b: "digits_between 1 2 b"
    and y: "digits_between 4 4 y"
    by blast
  from py_int_digits [OF a] obtain ka where ka: "ka < 100" "py_int a = Some ka" by blast
  from py_int_digits [OF b] obtain kb where kb: "kb < 100" "py_int b = Some kb" by blast
  from iso_date_shape [OF y ka(1) kb(1)] show ?thesis
    by (simp add: m m_group_def ka kb)
qed

lemma search_dmy:
  assumes "re_search (date_mdy sep) t = Some m"
  shows "\<exists>d. iso_date (m_group m 3) (py_int (m_group m 2)) (py_int (m_group m 1)) = Some d
             \<and> iso_shaped d"
proof -
  from re_search_matches [OF assms] obtain u n where "(m, n) \<in> set (matches (date_mdy sep) u)"
    by blast
  from matches_date_mdy [OF this] obtain a b y where
    m: "m = [a, b, y]" and a: "digits_between 1 2 a" and b: "digits_between 1 2 b"
    and y: "digits_between 4 4 y"
    by blast
  from py_int_digits [OF a] obtain ka where ka: "ka < 100" "py_int a = Some ka" by blast
  from py_int_digits [OF b] obtain kb where kb: "kb < 100" "py_int b = Some kb" by blast
  from iso_date_shape [OF y kb(1) ka(1)] show ?thesis
    by (simp add: m m_group_def ka kb)
qed

lemma search_ymd:
  assumes "re_search date_ymd t = Some m"
  shows "\<exists>d. iso_date (m_group m 1) (py_int (m_group m 2)) (py_int (m_group m 3)) = Some d
             \<and> iso_shaped d"
proof -
  from re_search_matches [OF assms] obtain u n where "(m, n) \<in> set (matches date_ymd u)"
    by blast
  from matches_date_ymd [OF this] obtain y a b where
    m: "m = [y, a, b]" and a: "digits_between 1 2 a" and b: "digits_between 1 2 b"
    and y: "digits_between 4 4 y"
    by blast
  from py_int_digits [OF a] obtain ka where ka: "ka < 100" "py_int a = Some ka" by blast
  from py_int_digits [OF b] obtain kb where kb: "kb < 100" "py_int b = Some kb" by blast
  from iso_date_shape [OF y ka(1) kb(1)] show ?thesis
    by (simp add: m m_group_def ka kb)
qed

lemma search_textual:
  assumes "re_search date_textual t = Some m"
  shows "\<exists>d. iso_date (m_group m 3) (map_option Suc (index_of month_names (m_group m 1)))
                (py_int (m_group m 2)) = Some d
             \<and> iso_shaped d"
proof -
  from re_search_matches [OF assms] obtain u n where "(m, n) \<in> set (matches date_textual u)"
    by blast
  from matches_date_textual [OF this] obtain mon a y where
    m: "m = [mon, a, y]" and mon: "mon \<in> set month_names" and a: "digits_between 1 2 a"
    and y: "digits_between 4 4 y"
    by blast
  from index_of_member [OF mon] obtain i where
    i: "i < length month_names" "index_of month_names mon = Some i"
    by blast
  then have "Suc i < 100" by (simp add: month_names_def)
  from py_int_digits [OF a] obtain ka where ka: "ka < 100" "py_int a = Some ka" by blast
  from iso_date_shape [OF y \<open>Suc i < 100\<close> ka(1)] show ?thesis
    by (simp add: m m_group_def ka i)
qed

lemma date_patterns_format:
  "list_all (\<lambda>pf. \<forall>m. re_search (fst pf) t = Some m \<longrightarrow> (\<exists>d. snd pf m = Some d \<and> iso_shaped d))
     date_patterns"
  unfolding date_patterns_def list.pred_inject fst_conv snd_conv
  by (intro conjI allI impI;
      (erule search_mdy | erule search_dmy | erule search_ymd | erule search_textual | simp))

lemma first_date_find:
  assumes "list_all (\<lambda>pf. \<forall>m. re_search (fst pf) t = Some m \<longrightarrow> (\<exists>d. snd pf m = Some d \<and> Q d)) ps"
  shows "first_date ps t =
           (case find (\<lambda>pf. re_search (fst pf) t \<noteq> None) ps of
              None \<Rightarrow> None
            | Some pf \<Rightarrow> Option.bind (re_search (fst pf) t) (snd pf))
         \<and> (\<forall>d. first_date ps t = Some d \<longrightarrow> Q d)"
  using assms
proof (induction ps)
  case Nil
  then show ?case by simp
next
  case (Cons pf ps)
  obtain p f where pf: "pf = (p, f)" by (cases pf)
  show ?case
  proof (cases "re_search p t")
    case None
    with Cons pf show ?thesis by simp
  next
    case (Some m)
    with Cons.prems pf obtain d where "f m = Some d" "Q d" by auto
    with Some pf show ?thesis by simp
  qed
qed

text \<open>An instance of the record builder, on 2024-08-12, for a text without a date.\<close>

lemma build_item_price: "build_item now make_hint content = Some item \<Longrightarrow> 1000 \<le> price item"
  by (auto simp: build_item_def Let_def split: if_splits)

lemma built_example:
  "build_item now_example (Some ''John Deere'')
     ''JOHN DEERE 8370R  $215,000, 200000 USD in Omaha, NE''
   = Some \<lparr>sale_id = ''John Deere 8370R - Omaha, NE'', item_name = ''John Deere 8370R'',
           auction_company = ''Omaha, NE'', price = 207500, sale_date = ''2024-07-13'',
           item_text = ''JOHN DEERE 8370R $215000, 200000 USD in Omaha, NE''\<rparr>"
proof -
  have clean: "clean_and_normalize_text
       ''JOHN DEERE 8370R  $215,000, 200000 USD in Omaha, NE''
     = ''JOHN DEERE 8370R $215000, 200000 USD in Omaha, NE''"
    by code_simp
  have prices: "extract_prices ''JOHN DEERE 8370R $215000, 200000 USD in Omaha, NE''
     = [215000, 200000]"
    by (simp add: price_eval)
  have date: "extract_date ''JOHN DEERE 8370R $215000, 200000 USD in Omaha, NE''
     = None"
    by code_simp
  have brand: "extract_equipment_brand_and_model
       ''JOHN DEERE 8370R $215000, 200000 USD in Omaha, NE'' (Some ''John Deere'')
     = (''John Deere'', ''8370R'')"
    by code_simp
  have auction: "extract_auction_company
       ''JOHN DEERE 8370R $215000, 200000 USD in Omaha, NE'' = ''Omaha, NE''"
    by code_simp
  have day: "strftime_ymd (now_example - timedelta_days 30) = ''2024-07-13''"
    by code_simp
  show ?thesis
    unfolding build_item_def Let_def clean prices date brand auction day
    by simp
qed

text \<open>
  Claim C9, as the code has it. The extractor returns what the formatter of the first
  pattern (in the order of the source) that matches anywhere in the text makes of
  that match; no formatter fails on a match of its pattern. Every date returned has the
  shape \<^verbatim>\<open>YYYY-MM-DD\<close>; it need not be a day of the calendar, and the recency filter
  files a record with such a date in its 90-to-180-day bucket. When the extractor
  returns nothing, the record that is built carries the date 30 days before \<open>now\<close>.
\<close>

theorem extract_date_first_match:
  "extract_date t =
     (case find (\<lambda>pf. re_search (fst pf) t \<noteq> None) date_patterns of
        None \<Rightarrow> None
      | Some pf \<Rightarrow> Option.bind (re_search (fst pf) t) (snd pf))
   \<and> (\<forall>d. extract_date t = Some d \<longrightarrow> iso_shaped d)
   \<and> (\<forall>item. extract_date (clean_and_normalize_text content) = None
         \<and> build_item now make_hint content = Some item
         \<longrightarrow> sale_date item = strftime_ymd (now - timedelta_days 30))"
proof -
  have "\<forall>item. extract_date (clean_and_normalize_text content) = None
         \<and> build_item now make_hint content = Some item
         \<longrightarrow> sale_date item = strftime_ymd (now - timedelta_days 30)"
    by (auto simp: build_item_def Let_def split: if_splits)
  with first_date_find [OF date_patterns_format, of t] show ?thesis
    unfolding extract_date_def by blast
qed


theorem extract_date_first_match_witness:
  "extract_date ''Sold 3/5/2024 in Omaha'' = Some ''2024-03-05''
   \<and> iso_shaped ''2024-03-05''
   \<and> extract_date (clean_and_normalize_text ''JOHN DEERE 8370R  $215,000, 200000 USD in Omaha, NE'')
       = None
   \<and> sale_date
        \<lparr>sale_id = ''John Deere 8370R - Omaha, NE'', item_name = ''John Deere 8370R'',
         auction_company = ''Omaha, NE'', price = 207500, sale_date = ''2024-07-13'',
         item_text = ''JOHN DEERE 8370R $215000, 200000 USD in Omaha, NE''\<rparr>
       = strftime_ymd (now_example - timedelta_days 30)"
proof -
  have found: "extract_date ''Sold 3/5/2024 in Omaha'' = Some ''2024-03-05''"
    by code_simp
  have absent:
    "extract_date (clean_and_normalize_text ''JOHN DEERE 8370R  $215,000, 200000 USD in Omaha, NE'')
     = None"
    by code_simp
  note first =
    extract_date_first_match
      [where t = "''Sold 3/5/2024 in Omaha''"
         and content = "''JOHN DEERE 8370R  $215,000, 200000 USD in Omaha, NE''"
         and now = now_example and make_hint = "Some ''John Deere''"]
  from first have
    shape: "\<forall>d. extract_date ''Sold 3/5/2024 in Omaha'' = Some d \<longrightarrow> iso_shaped d"
    by (elim conjE)
  from first have
    default: "\<forall>item.
       extract_date (clean_and_normalize_text
         ''JOHN DEERE 8370R  $215,000, 200000 USD in Omaha, NE'') = None
       \<and> build_item now_example (Some ''John Deere'')
           ''JOHN DEERE 8370R  $215,000, 200000 USD in Omaha, NE'' = Some item
       \<longrightarrow> sale_date item = strftime_ymd (now_example - timedelta_days 30)"
    by (elim conjE)
  from shape [rule_format, OF found] default [rule_format, OF conjI [OF absent built_example]]
    found absent
  show ?thesis by (intro conjI)
qed

text \<open>
  Claim C9 as stated fails: the text \<^verbatim>\<open>13/45/2023\<close> gives \<^verbatim>\<open>2023-13-45\<close>, which is no
  calendar date; \<^verbatim>\<open>strptime\<close> rejects it.
\<close>

theorem extract_date_invalid_counterexample:
  "extract_date ''13/45/2023'' = Some ''2023-13-45''
   \<and> strptime_ymd ''2023-13-45'' = None \<and> \<not> valid_date 2023 13 45"
  by code_simp

section \<open>Properties of the record builder\<close>

text \<open>
  Claim C6. Every record the builder emits has a price of at least 1000; a passage whose
  list of extracted prices is empty, or whose mean price is below 1000, gives no record.
  Hence every record that \<^verbatim>\<open>search_with_rag\<close> returns has a price of at least 1000.
\<close>

theorem built_records_price_floor:
  "(\<forall>item. build_item now make_hint content = Some item \<longrightarrow> 1000 \<le> price item)
   \<and> (extract_prices (clean_and_normalize_text content) = []
        \<longrightarrow> build_item now make_hint content = None)
   \<and> (mean (extract_prices (clean_and_normalize_text content)) < 1000
        \<longrightarrow> build_item now make_hint content = None)
   \<and> (\<forall>item \<in> set (search_with_rag now make_hint results). 1000 \<le> price item)"
proof -
  have "1000 \<le> price item" if "item \<in> set (search_with_rag now make_hint results)" for item
  proof (cases results)
    case None
    with that show ?thesis by (simp add: search_with_rag_def)
  next
    case (Some rs)
    with that have "item \<in> set (remove_outliers
        (recency_filter now (List.map_filter (build_item now make_hint) rs)))"
      by (simp add: search_with_rag_def)
    then have "item \<in> set (List.map_filter (build_item now make_hint) rs)"
      using remove_outliers_subset recency_filter_subset by (meson subsetD)
    then obtain content where "build_item now make_hint content = Some item"
      by (auto simp: List.map_filter_def)
    then show ?thesis by (rule build_item_price)
  qed
  moreover have "build_item now make_hint content = None"
    if "mean (extract_prices (clean_and_normalize_text content)) < 1000"
    using that by (simp add: build_item_def Let_def mean_def)
  moreover have "build_item now make_hint content = None"
    if "extract_prices (clean_and_normalize_text content) = []"
    using that by (simp add: build_item_def Let_def)
  ultimately show ?thesis
    using build_item_price by blast
qed

theorem built_records_price_floor_witness:
  "build_item now_example (Some ''John Deere'')
       ''JOHN DEERE 8370R  $215,000, 200000 USD in Omaha, NE''
     = Some \<lparr>sale_id = ''John Deere 8370R - Omaha, NE'', item_name = ''John Deere 8370R'',
             auction_company = ''Omaha, NE'', price = 207500, sale_date = ''2024-07-13'',
             item_text = ''JOHN DEERE 8370R $215000, 200000 USD in Omaha, NE''\<rparr>
   \<and> (1000 :: rat) \<le> 207500
   \<and> extract_prices (clean_and_normalize_text ''Kubota M7, lot $120'') = []
   \<and> mean (extract_prices (clean_and_normalize_text ''Kubota M7, lot $120'')) < 1000
   \<and> build_item now_example (Some ''John Deere'') ''Kubota M7, lot $120'' = None
   \<and> search_with_rag now_example (Some ''John Deere'')
        (Some [''Kubota M7, lot $120'', ''JOHN DEERE 8370R  $215,000, 200000 USD in Omaha, NE''])
       = [\<lparr>sale_id = ''John Deere 8370R - Omaha, NE'', item_name = ''John Deere 8370R'',
           auction_company = ''Omaha, NE'', price = 207500, sale_date = ''2024-07-13'',
           item_text = ''JOHN DEERE 8370R $215000, 200000 USD in Omaha, NE''\<rparr>]"
proof -
  have clean: "clean_and_normalize_text ''Kubota M7, lot $120'' = ''Kubota M7, lot $120''"
    by code_simp
  have none: "extract_prices (clean_and_normalize_text ''Kubota M7, lot $120'') = []"
    unfolding clean by (simp add: price_eval)
  then have low: "mean (extract_prices (clean_and_normalize_text ''Kubota M7, lot $120'')) < 1000"
    by (simp add: mean_def)
  note floor =
    built_records_price_floor
      [where now = now_example and make_hint = "Some ''John Deere''"
         and content = "''Kubota M7, lot $120''"]
  from floor none have skipped:
    "build_item now_example (Some ''John Deere'') ''Kubota M7, lot $120'' = None"
    by blast
  have recent:
    "recency_filter now_example
       [\<lparr>sale_id = ''John Deere 8370R - Omaha, NE'', item_name = ''John Deere 8370R'',
         auction_company = ''Omaha, NE'', price = 207500, sale_date = ''2024-07-13'',
         item_text = ''JOHN DEERE 8370R $215000, 200000 USD in Omaha, NE''\<rparr>]
     = [\<lparr>sale_id = ''John Deere 8370R - Omaha, NE'', item_name = ''John Deere 8370R'',
         auction_company = ''Omaha, NE'', price = 207500, sale_date = ''2024-07-13'',
         item_text = ''JOHN DEERE 8370R $215000, 200000 USD in Omaha, NE''\<rparr>]"
    by code_simp
  have found:
    "search_with_rag now_example (Some ''John Deere'')
        (Some [''Kubota M7, lot $120'', ''JOHN DEERE 8370R  $215,000, 200000 USD in Omaha, NE''])
       = [\<lparr>sale_id = ''John Deere 8370R - Omaha, NE'', item_name = ''John Deere 8370R'',
           auction_company = ''Omaha, NE'', price = 207500, sale_date = ''2024-07-13'',
           item_text = ''JOHN DEERE 8370R $215000, 200000 USD in Omaha, NE''\<rparr>]"
    by (simp add: search_with_rag_def List.map_filter_simps skipped built_example recent
        remove_outliers_def)
  from built_example none low skipped found show ?thesis
    by simp
qed

end
